theory Spec2Isabelle
  imports Main "HOL-Library.Sublist"
begin

section \<open>The binding-rule update command\<close>

text \<open>
  A shallow embedding of \<^verbatim>\<open>command/acl/bindingrule/update/bindingrule_update.go\<close>.
  Go strings are character lists, a Go \<^verbatim>\<open>error\<close> is the text of its message, and the
  collaborators the command calls (the API client, the identifier lookup, the remote
  store) are functions held in an environment record.
\<close>

subsection \<open>Data\<close>

text \<open>
  \<^verbatim>\<open>api.ACLBindingRule\<close>: the fields of the struct that the command reads or writes.
  \<^verbatim>\<open>api.BindingRuleRoleBindType\<close> is a string type, so the conversion
  \<^verbatim>\<open>api.BindingRuleRoleBindType(c.roleBindType)\<close> is the identity.
\<close>

type_synonym BindingRuleRoleBindType = string

record ACLBindingRule =
  ID :: string
  IDPName :: string
  Description :: string
  RoleBindType :: BindingRuleRoleBindType
  RoleName :: string
  Selector :: string

text \<open>
  Modelled from the spec: the constant \<^verbatim>\<open>api.BindingRuleRoleBindTypeService\<close> is declared
  in package \<^verbatim>\<open>api\<close>, outside the sources at hand. The spec gives the option
  \<^verbatim>\<open>roleBindType (default "service")\<close>, and the flag's usage text names the two
  values "service" and "existing".
\<close>

definition BindingRuleRoleBindTypeService :: BindingRuleRoleBindType where
  "BindingRuleRoleBindTypeService = ''service''"

text \<open>
  \<^verbatim>\<open>type cmd struct\<close>: the variables bound to the flags, and \<^verbatim>\<open>flags\<close>, of which the
  model keeps the names of the flags that have been set (what \<^verbatim>\<open>FlagSet.Visit\<close>
  visits).
\<close>

record cmd =
  flags :: "string list"
  ruleID :: string
  description :: string
  selector :: string
  roleBindType :: string
  roleName :: string
  noMerge :: bool
  showMeta :: bool

text \<open>
  What reaches the user interface. A message keeps its format string and the arguments
  of \<^verbatim>\<open>fmt.Sprintf\<close> apart; \<^verbatim>\<open>Help\<close> is the text of \<^verbatim>\<open>c.Help()\<close>.
\<close>

datatype message = Sprintf string "string list" | Help

datatype ui_call =
    UI_Error message
  | UI_Info message
  | PrintBindingRule ACLBindingRule bool

text \<open>
  The collaborators of one invocation:
  \<^item> \<^verbatim>\<open>HTTPFlags name value\<close>: whether the flags merged from \<^verbatim>\<open>c.http.ClientFlags()\<close> and
    \<^verbatim>\<open>c.http.ServerFlags()\<close> accept the argument \<^verbatim>\<open>-name=value\<close>;
  \<^item> \<^verbatim>\<open>APIClient\<close>: the error of \<^verbatim>\<open>c.http.APIClient()\<close>, if any;
  \<^item> \<^verbatim>\<open>GetBindingRuleIDFromPartial\<close>: the identifier lookup of package \<^verbatim>\<open>acl\<close>;
  \<^item> \<^verbatim>\<open>BindingRuleRead\<close>: an error, or the rule stored under an identifier
    (\<^verbatim>\<open>None\<close> is the \<^verbatim>\<open>nil\<close> rule);
  \<^item> \<^verbatim>\<open>BindingRuleUpdate\<close>: an error, or the rule as the store returns it.
\<close>

record env =
  HTTPFlags :: "string \<Rightarrow> string \<Rightarrow> bool"
  APIClient :: "string option"
  GetBindingRuleIDFromPartial :: "string \<Rightarrow> string + string"
  BindingRuleRead :: "string \<Rightarrow> string + ACLBindingRule option"
  BindingRuleUpdate :: "ACLBindingRule \<Rightarrow> string + ACLBindingRule"

text \<open>
  What one call of \<^verbatim>\<open>Run\<close> does: the status it returns, its calls of the user
  interface in order, and the rules it passed to \<^verbatim>\<open>BindingRuleUpdate\<close>.
\<close>

record outcome =
  exit_code :: int
  ui :: "ui_call list"
  submitted :: "ACLBindingRule list"

subsection \<open>Flags\<close>

text \<open>
  \<^verbatim>\<open>init\<close>: every flag variable starts at the default its registration gives, and no
  flag has been set.
\<close>

definition init :: cmd where
  "init = \<lparr>flags = [], ruleID = '''', description = '''', selector = '''',
           roleBindType = BindingRuleRoleBindTypeService, roleName = '''',
           noMerge = False, showMeta = False\<rparr>"

text \<open>
  The standard library's \<^verbatim>\<open>strconv.ParseBool\<close>, which reads the value of a boolean
  flag.
\<close>

definition ParseBool :: "string \<Rightarrow> bool option" where
  "ParseBool s =
     (if s \<in> set [''1'', ''t'', ''T'', ''TRUE'', ''true'', ''True''] then Some True
      else if s \<in> set [''0'', ''f'', ''F'', ''FALSE'', ''false'', ''False''] then Some False
      else None)"

datatype flag_error = NotDefined string | InvalidValue string string

text \<open>
  The command line is a list of pairs \<^verbatim>\<open>(name, value)\<close>, one for each argument
  \<^verbatim>\<open>-name=value\<close> or \<^verbatim>\<open>-name value\<close> before the first non-flag argument; a boolean
  flag given as \<^verbatim>\<open>-name\<close> is the pair \<^verbatim>\<open>(name, "true")\<close>.

  \<^verbatim>\<open>set_flag\<close> is what \<^verbatim>\<open>FlagSet.Parse\<close> does with one argument: an unknown name or an
  unreadable value is an error, otherwise the variable bound to the flag takes the value
  and the flag is recorded as set.
\<close>

definition set_flag :: "(string \<Rightarrow> string \<Rightarrow> bool) \<Rightarrow> cmd \<Rightarrow> string \<Rightarrow> string \<Rightarrow> flag_error + cmd" where
  "set_flag http c name value =
     (if name = ''meta'' then
        (case ParseBool value of
           None \<Rightarrow> Inl (InvalidValue name value)
         | Some b \<Rightarrow> Inr (c\<lparr>showMeta := b, flags := name # flags c\<rparr>))
      else if name = ''id'' then Inr (c\<lparr>ruleID := value, flags := name # flags c\<rparr>)
      else if name = ''description'' then Inr (c\<lparr>description := value, flags := name # flags c\<rparr>)
      else if name = ''selector'' then Inr (c\<lparr>selector := value, flags := name # flags c\<rparr>)
      else if name = ''role-bind-type'' then Inr (c\<lparr>roleBindType := value, flags := name # flags c\<rparr>)
      else if name = ''role-name'' then Inr (c\<lparr>roleName := value, flags := name # flags c\<rparr>)
      else if name = ''no-merge'' then
        (case ParseBool value of
           None \<Rightarrow> Inl (InvalidValue name value)
         | Some b \<Rightarrow> Inr (c\<lparr>noMerge := b, flags := name # flags c\<rparr>))
      else if http name value then Inr (c\<lparr>flags := name # flags c\<rparr>)
      else Inl (NotDefined name))"

fun Parse :: "(string \<Rightarrow> string \<Rightarrow> bool) \<Rightarrow> cmd \<Rightarrow> (string \<times> string) list \<Rightarrow> flag_error + cmd" where
  "Parse http c [] = Inr c"
| "Parse http c ((name, value) # args) =
     (case set_flag http c name value of
        Inl err \<Rightarrow> Inl err
      | Inr c' \<Rightarrow> Parse http c' args)"

text \<open>
  \<^verbatim>\<open>isFlagSet\<close>: \<^verbatim>\<open>Visit\<close> calls the function on every flag that has been set, and the
  function raises \<^verbatim>\<open>found\<close> at the flag of the given name.
\<close>

definition isFlagSet :: "cmd \<Rightarrow> string \<Rightarrow> bool" where
  "isFlagSet c name = foldl (\<lambda>found f. if f = name then True else found) False (flags c)"

subsection \<open>Run\<close>

text \<open>
  \<^verbatim>\<open>Run\<close>, stage by stage as the source has it: parse the flags, require \<^verbatim>\<open>-id\<close>,
  create the client, resolve the identifier, read the current rule, plan the rule to
  submit, update. Every \<^verbatim>\<open>return 1\<close> of the source is an outcome with status 1 and the
  errors shown so far. The planning step is a sum: \<^verbatim>\<open>Inl\<close> is the early return for a
  missing role name under \<^verbatim>\<open>-no-merge\<close>, \<^verbatim>\<open>Inr\<close> the rule both branches hand to
  \<^verbatim>\<open>BindingRuleUpdate\<close>. In the merge branch \<^verbatim>\<open>rule\<close> starts as the current rule and
  each \<^verbatim>\<open>if\<close> of the source assigns one field.
\<close>

definition Run :: "env \<Rightarrow> (string \<times> string) list \<Rightarrow> outcome" where
  "Run env args =
     (case Parse (HTTPFlags env) init args of
        Inl err \<Rightarrow> \<lparr>exit_code = 1, ui = [], submitted = []\<rparr>
      | Inr c \<Rightarrow>
          if ruleID c = '''' then
            \<lparr>exit_code = 1,
             ui = [UI_Error (Sprintf ''Cannot update a binding rule without specifying the -id parameter'' [])],
             submitted = []\<rparr>
          else
          (case APIClient env of
             Some err \<Rightarrow>
               \<lparr>exit_code = 1,
                ui = [UI_Error (Sprintf ''Error connecting to Consul agent: %s'' [err])],
                submitted = []\<rparr>
           | None \<Rightarrow>
          (case GetBindingRuleIDFromPartial env (ruleID c) of
             Inl err \<Rightarrow>
               \<lparr>exit_code = 1,
                ui = [UI_Error (Sprintf ''Error determining binding rule ID: %v'' [err])],
                submitted = []\<rparr>
           | Inr ruleID' \<Rightarrow>
          (case BindingRuleRead env ruleID' of
             Inl err \<Rightarrow>
               \<lparr>exit_code = 1,
                ui = [UI_Error (Sprintf ''Error when retrieving current binding rule: %v'' [err])],
                submitted = []\<rparr>
           | Inr None \<Rightarrow>
               \<lparr>exit_code = 1,
                ui = [UI_Error (Sprintf ''Binding rule not found with ID %q'' [ruleID'])],
                submitted = []\<rparr>
           | Inr (Some currentRule) \<Rightarrow>
          (case
             (if noMerge c then
                if roleName c = '''' then
                  Inl \<lparr>exit_code = 1,
                       ui = [UI_Error (Sprintf ''Missing required '-role-name' flag'' []),
                             UI_Error Help],
                       submitted = []\<rparr>
                else
                  Inr \<lparr>ID = ruleID',
                       IDPName = IDPName currentRule,
                       Description = description c,
                       RoleBindType = roleBindType c,
                       RoleName = roleName c,
                       Selector = selector c\<rparr>
              else
                let rule = currentRule;
                    rule = (if description c \<noteq> '''' then rule\<lparr>Description := description c\<rparr> else rule);
                    rule = (if roleName c \<noteq> '''' then rule\<lparr>RoleName := roleName c\<rparr> else rule);
                    rule = (if isFlagSet c ''role-bind-type''
                            then rule\<lparr>RoleBindType := roleBindType c\<rparr> else rule);
                    rule = (if isFlagSet c ''selector'' then rule\<lparr>Selector := selector c\<rparr> else rule)
                in Inr rule)
           of
             Inl early \<Rightarrow> early
           | Inr rule \<Rightarrow>
          (case BindingRuleUpdate env rule of
             Inl err \<Rightarrow>
               \<lparr>exit_code = 1,
                ui = [UI_Error (Sprintf ''Error updating binding rule %q: %v'' [ruleID', err])],
                submitted = [rule]\<rparr>
           | Inr rule' \<Rightarrow>
               \<lparr>exit_code = 0,
                ui = [UI_Info (Sprintf ''Binding rule updated successfully'' []),
                      PrintBindingRule rule' (showMeta c)],
                submitted = [rule]\<rparr>))))))"

subsection \<open>Identifier resolution\<close>

text \<open>
  Modelled from the spec: the error kinds of the resolver, \<^verbatim>\<open>NotFound\<close> and
  \<^verbatim>\<open>AmbiguousPrefix\<close>; the latter names the colliding identifiers.
\<close>

datatype resolve_error = NotFound | AmbiguousPrefix "string list"

text \<open>
  Modelled from the spec: \<^verbatim>\<open>acl.GetBindingRuleIDFromPartial\<close> is defined in package
  \<^verbatim>\<open>command/acl\<close>, outside the sources at hand. The spec's resolver treats the partial
  identifier as a case-sensitive prefix, scans all known full identifiers and collects
  those with the partial as a prefix: exactly one match is returned, zero matches fail
  with \<^verbatim>\<open>NotFound\<close>, two or more fail with \<^verbatim>\<open>AmbiguousPrefix\<close>. The candidates are
  an argument, since the spec leaves their retrieval to the caller's collaborator.
\<close>

definition resolve :: "string \<Rightarrow> string list \<Rightarrow> resolve_error + string" where
  "resolve partial candidates =
     (case filter (prefix partial) candidates of
        [] \<Rightarrow> Inl NotFound
      | [full] \<Rightarrow> Inr full
      | matches \<Rightarrow> Inl (AmbiguousPrefix matches))"

subsection \<open>An in-memory environment\<close>

text \<open>
  The collaborators over a list of known identifiers and a table of stored rules: the
  lookup is the resolver above, a read returns what the table holds under the
  identifier, an update succeeds with the rule it was given, and the HTTP flag sets know
  the flag \<^verbatim>\<open>-token\<close>.
\<close>

definition fake_env :: "string list \<Rightarrow> (string \<rightharpoonup> ACLBindingRule) \<Rightarrow> env" where
  "fake_env candidates store =
     \<lparr>HTTPFlags = (\<lambda>name value. name = ''token''),
      APIClient = None,
      GetBindingRuleIDFromPartial =
        (\<lambda>partial. case resolve partial candidates of
                      Inl NotFound \<Rightarrow> Inl ''no such rule ID''
                    | Inl (AmbiguousPrefix matches) \<Rightarrow> Inl ''matched multiple binding rules''
                    | Inr full \<Rightarrow> Inr full),
      BindingRuleRead = (\<lambda>ruleID. Inr (store ruleID)),
      BindingRuleUpdate = (\<lambda>rule. Inr rule)\<rparr>"

text \<open>A stored rule, and a table that holds it under its identifier.\<close>

definition web_rule :: ACLBindingRule where
  "web_rule = \<lparr>ID = ''43cb72df-aaa'', IDPName = ''k8s'', Description = ''old'',
               RoleBindType = ''existing'', RoleName = ''web'', Selector = ''x==1''\<rparr>"

definition web_env :: env where
  "web_env = fake_env [''43cb72df-aaa'', ''9f1e0c55-bbb''] [''43cb72df-aaa'' \<mapsto> web_rule]"

subsection \<open>The command line as the user wrote it\<close>

text \<open>
  \<^verbatim>\<open>last_value args name dflt\<close> is the value of the last argument of the command line
  that names the flag, and \<^verbatim>\<open>dflt\<close> when no argument names it. A flag was passed
  explicitly when its name is in \<^verbatim>\<open>fst ` set args\<close>.
\<close>

definition last_value :: "(string \<times> string) list \<Rightarrow> string \<Rightarrow> string \<Rightarrow> string" where
  "last_value args name dflt = (case map_of (rev args) name of Some v \<Rightarrow> v | None \<Rightarrow> dflt)"

section \<open>Properties\<close>

subsection \<open>Flags after parsing\<close>

lemma isFlagSet_iff: "isFlagSet c name \<longleftrightarrow> name \<in> set (flags c)"
proof -
  have "foldl (\<lambda>found f. if f = name then True else found) b xs \<longleftrightarrow> b \<or> name \<in> set xs"
    for b xs
    by (induction xs arbitrary: b) auto
  then show ?thesis by (simp add: isFlagSet_def)
qed

lemma set_flag_fields:
  assumes "set_flag http c name value = Inr c'"
  shows "flags c' = name # flags c"
    and "ruleID c' = (if name = ''id'' then value else ruleID c)"
    and "description c' = (if name = ''description'' then value else description c)"
    and "selector c' = (if name = ''selector'' then value else selector c)"
    and "roleBindType c' = (if name = ''role-bind-type'' then value else roleBindType c)"
    and "roleName c' = (if name = ''role-name'' then value else roleName c)"
  using assms by (auto simp: set_flag_def split: if_splits option.splits)

lemma Parse_Cons_Inr:
  assumes "Parse http c ((name, value) # args) = Inr c'"
  shows "\<exists>c1. set_flag http c name value = Inr c1 \<and> Parse http c1 args = Inr c'"
  using assms by (auto split: sum.splits)

lemma Parse_flags:
  "Parse http c args = Inr c' \<Longrightarrow> set (flags c') = set (flags c) \<union> fst ` set args"
proof (induction args arbitrary: c)
  case Nil
  then show ?case by simp
next
  case (Cons a args)
  obtain name v where a: "a = (name, v)" by (cases a)
  from Cons.prems a obtain c1
    where s: "set_flag http c name v = Inr c1" and p: "Parse http c1 args = Inr c'"
    using Parse_Cons_Inr by blast
  show ?case using Cons.IH[OF p] set_flag_fields(1)[OF s] a by auto
qed

lemma last_value_Cons:
  "last_value ((n, v) # args) name dflt = last_value args name (if n = name then v else dflt)"
  by (simp add: last_value_def map_add_def split: option.splits)

lemma Parse_fields:
  "Parse http c args = Inr c' \<Longrightarrow>
     ruleID c' = last_value args ''id'' (ruleID c) \<and>
     description c' = last_value args ''description'' (description c) \<and>
     selector c' = last_value args ''selector'' (selector c) \<and>
     roleBindType c' = last_value args ''role-bind-type'' (roleBindType c) \<and>
     roleName c' = last_value args ''role-name'' (roleName c)"
proof (induction args arbitrary: c)
  case Nil
  then show ?case by (simp add: last_value_def)
next
  case (Cons a args)
  obtain name v where a: "a = (name, v)" by (cases a)
  from Cons.prems a obtain c1
    where s: "set_flag http c name v = Inr c1" and p: "Parse http c1 args = Inr c'"
    using Parse_Cons_Inr by blast
  show ?case
    unfolding a last_value_Cons using Cons.IH[OF p] set_flag_fields[OF s] by simp
qed

text \<open>After parsing a command line from the initial state.\<close>

lemma Parse_init:
  assumes "Parse http init args = Inr c"
  shows "ruleID c = last_value args ''id'' ''''"
    and "description c = last_value args ''description'' ''''"
    and "selector c = last_value args ''selector'' ''''"
    and "roleBindType c = last_value args ''role-bind-type'' ''service''"
    and "roleName c = last_value args ''role-name'' ''''"
    and "isFlagSet c name \<longleftrightarrow> name \<in> fst ` set args"
  using Parse_fields[OF assms] Parse_flags[OF assms]
  by (simp_all add: init_def BindingRuleRoleBindTypeService_def isFlagSet_iff)


lemma last_value_present:
  "name \<in> fst ` set args \<Longrightarrow> \<exists>v. (name, v) \<in> set args \<and> last_value args name dflt = v"
proof -
  assume "name \<in> fst ` set args"
  then have "map_of (rev args) name \<noteq> None" by (simp add: map_of_eq_None_iff)
  then obtain v where v: "map_of (rev args) name = Some v" by blast
  then have "(name, v) \<in> set args" using map_of_SomeD by fastforce
  with v show ?thesis by (simp add: last_value_def)
qed

subsection \<open>The paths through Run\<close>

lemma submitted_case_sum:
  "submitted (case s of Inl err \<Rightarrow> \<lparr>exit_code = a, ui = u err, submitted = rs\<rparr>
                      | Inr r' \<Rightarrow> \<lparr>exit_code = b, ui = v r', submitted = rs\<rparr>) = rs"
  by (cases s) simp_all

lemma Run_parse_error:
  "Parse (HTTPFlags env) init args = Inl err \<Longrightarrow>
     Run env args = \<lparr>exit_code = 1, ui = [], submitted = []\<rparr>"
  by (simp add: Run_def)

lemma Run_missing_id:
  "Parse (HTTPFlags env) init args = Inr c \<Longrightarrow> ruleID c = '''' \<Longrightarrow>
     Run env args =
       \<lparr>exit_code = 1,
        ui = [UI_Error (Sprintf ''Cannot update a binding rule without specifying the -id parameter'' [])],
        submitted = []\<rparr>"
  by (simp add: Run_def)

lemma Run_client_error:
  "Parse (HTTPFlags env) init args = Inr c \<Longrightarrow> ruleID c \<noteq> '''' \<Longrightarrow>
   APIClient env = Some err \<Longrightarrow>
     Run env args =
       \<lparr>exit_code = 1,
        ui = [UI_Error (Sprintf ''Error connecting to Consul agent: %s'' [err])],
        submitted = []\<rparr>"
  by (simp add: Run_def)

lemma Run_resolve_error:
  "Parse (HTTPFlags env) init args = Inr c \<Longrightarrow> ruleID c \<noteq> '''' \<Longrightarrow>
   APIClient env = None \<Longrightarrow> GetBindingRuleIDFromPartial env (ruleID c) = Inl err \<Longrightarrow>
     Run env args =
       \<lparr>exit_code = 1,
        ui = [UI_Error (Sprintf ''Error determining binding rule ID: %v'' [err])],
        submitted = []\<rparr>"
  by (simp add: Run_def)

lemma Run_read_error:
  "Parse (HTTPFlags env) init args = Inr c \<Longrightarrow> ruleID c \<noteq> '''' \<Longrightarrow>
   APIClient env = None \<Longrightarrow> GetBindingRuleIDFromPartial env (ruleID c) = Inr rid \<Longrightarrow>
   BindingRuleRead env rid = Inl err \<Longrightarrow>
     Run env args =
       \<lparr>exit_code = 1,
        ui = [UI_Error (Sprintf ''Error when retrieving current binding rule: %v'' [err])],
        submitted = []\<rparr>"
  by (simp add: Run_def)

lemma Run_not_found:
  "Parse (HTTPFlags env) init args = Inr c \<Longrightarrow> ruleID c \<noteq> '''' \<Longrightarrow>
   APIClient env = None \<Longrightarrow> GetBindingRuleIDFromPartial env (ruleID c) = Inr rid \<Longrightarrow>
   BindingRuleRead env rid = Inr None \<Longrightarrow>
     Run env args =
       \<lparr>exit_code = 1,
        ui = [UI_Error (Sprintf ''Binding rule not found with ID %q'' [rid])],
        submitted = []\<rparr>"
  by (simp add: Run_def)

lemma Run_missing_roleName:
  "Parse (HTTPFlags env) init args = Inr c \<Longrightarrow> ruleID c \<noteq> '''' \<Longrightarrow>
   APIClient env = None \<Longrightarrow> GetBindingRuleIDFromPartial env (ruleID c) = Inr rid \<Longrightarrow>
   BindingRuleRead env rid = Inr (Some current) \<Longrightarrow> noMerge c \<Longrightarrow> roleName c = '''' \<Longrightarrow>
     Run env args =
       \<lparr>exit_code = 1,
        ui = [UI_Error (Sprintf ''Missing required '-role-name' flag'' []), UI_Error Help],
        submitted = []\<rparr>"
  by (simp add: Run_def)

lemma Run_overwrite:
  "Parse (HTTPFlags env) init args = Inr c \<Longrightarrow> ruleID c \<noteq> '''' \<Longrightarrow>
   APIClient env = None \<Longrightarrow> GetBindingRuleIDFromPartial env (ruleID c) = Inr rid \<Longrightarrow>
   BindingRuleRead env rid = Inr (Some current) \<Longrightarrow> noMerge c \<Longrightarrow> roleName c \<noteq> '''' \<Longrightarrow>
     submitted (Run env args) =
       [\<lparr>ID = rid, IDPName = IDPName current, Description = description c,
         RoleBindType = roleBindType c, RoleName = roleName c, Selector = selector c\<rparr>]"
  by (simp add: Run_def submitted_case_sum)

lemma Run_merge:
  "Parse (HTTPFlags env) init args = Inr c \<Longrightarrow> ruleID c \<noteq> '''' \<Longrightarrow>
   APIClient env = None \<Longrightarrow> GetBindingRuleIDFromPartial env (ruleID c) = Inr rid \<Longrightarrow>
   BindingRuleRead env rid = Inr (Some current) \<Longrightarrow> \<not> noMerge c \<Longrightarrow>
     submitted (Run env args) =
       [current\<lparr>Description := if description c \<noteq> '''' then description c else Description current,
                RoleName := if roleName c \<noteq> '''' then roleName c else RoleName current,
                RoleBindType := if isFlagSet c ''role-bind-type''
                                then roleBindType c else RoleBindType current,
                Selector := if isFlagSet c ''selector'' then selector c else Selector current\<rparr>]"
  by (simp add: Run_def submitted_case_sum)

lemma Run_submit:
  assumes "Parse (HTTPFlags env) init args = Inr c" and "ruleID c \<noteq> ''''"
    and "APIClient env = None" and "GetBindingRuleIDFromPartial env (ruleID c) = Inr rid"
    and "BindingRuleRead env rid = Inr (Some current)"
    and "noMerge c \<longrightarrow> roleName c \<noteq> ''''"
  shows "\<exists>rule. submitted (Run env args) = [rule] \<and>
           Run env args =
             (case BindingRuleUpdate env rule of
                Inl err \<Rightarrow>
                  \<lparr>exit_code = 1,
                   ui = [UI_Error (Sprintf ''Error updating binding rule %q: %v'' [rid, err])],
                   submitted = [rule]\<rparr>
              | Inr rule' \<Rightarrow>
                  \<lparr>exit_code = 0,
                   ui = [UI_Info (Sprintf ''Binding rule updated successfully'' []),
                         PrintBindingRule rule' (showMeta c)],
                   submitted = [rule]\<rparr>)"
proof (cases "noMerge c")
  case True
  with assms show ?thesis by (simp add: Run_def submitted_case_sum)
next
  case False
  with assms show ?thesis by (simp add: Run_def submitted_case_sum Let_def)
qed

text \<open>The stages a run goes through once the command line has been parsed.\<close>

lemma Run_stages:
  obtains
    (missing_id) "ruleID c = ''''"
  | (client_error) err where "ruleID c \<noteq> ''''" and "APIClient env = Some err"
  | (resolve_error) err where "ruleID c \<noteq> ''''" and "APIClient env = None"
      and "GetBindingRuleIDFromPartial env (ruleID c) = Inl err"
  | (read_error) rid err where "ruleID c \<noteq> ''''" and "APIClient env = None"
      and "GetBindingRuleIDFromPartial env (ruleID c) = Inr rid"
      and "BindingRuleRead env rid = Inl err"
  | (not_found) rid where "ruleID c \<noteq> ''''" and "APIClient env = None"
      and "GetBindingRuleIDFromPartial env (ruleID c) = Inr rid"
      and "BindingRuleRead env rid = Inr None"
  | (planning) rid current where "ruleID c \<noteq> ''''" and "APIClient env = None"
      and "GetBindingRuleIDFromPartial env (ruleID c) = Inr rid"
      and "BindingRuleRead env rid = Inr (Some current)"
proof (cases "ruleID c = ''''")
  case True
  then show ?thesis by (rule missing_id)
next
  case id: False
  show ?thesis
  proof (cases "APIClient env")
    case (Some err)
    with id show ?thesis by (rule client_error)
  next
    case client: None
    show ?thesis
    proof (cases "GetBindingRuleIDFromPartial env (ruleID c)")
      case (Inl err)
      with id client show ?thesis by (rule resolve_error)
    next
      case res: (Inr rid)
      show ?thesis
      proof (cases "BindingRuleRead env rid")
        case (Inl err)
        with id client res show ?thesis by (rule read_error)
      next
        case (Inr found)
        show ?thesis
        proof (cases found)
          case None
          with Inr have "BindingRuleRead env rid = Inr None" by simp
          with id client res show ?thesis by (rule not_found)
        next
          case (Some current)
          with Inr have "BindingRuleRead env rid = Inr (Some current)" by simp
          with id client res show ?thesis by (rule planning)
        qed
      qed
    qed
  qed
qed

section \<open>The claims\<close>

text \<open>
  In the theorems below a run has reached planning when the command line parsed to the
  state \<open>c\<close>, the \<^verbatim>\<open>-id\<close> flag is not empty, the client was created, the lookup
  resolved the identifier to \<open>rid\<close> and the store returned the rule \<open>current\<close> for it.
  The planned record is the rule the run passes to \<^verbatim>\<open>BindingRuleUpdate\<close>.
\<close>

subsection \<open>C1: the record planned in overwrite mode\<close>




subsection \<open>C2: roleBindType and selector in merge mode\<close>

text \<open>
  C2: in merge mode the planned record takes roleBindType and selector from the command
  line exactly when the flag was passed on this invocation, with the value passed (the
  last one, and also when it is the empty string); when the flag was not passed the field
  keeps the value of the current record.
\<close>

theorem merge_presence_fields:
  assumes "Parse (HTTPFlags env) init args = Inr c"
    and "ruleID c \<noteq> ''''"
    and "APIClient env = None"
    and "GetBindingRuleIDFromPartial env (ruleID c) = Inr rid"
    and "BindingRuleRead env rid = Inr (Some current)"
    and "\<not> noMerge c"
  shows "\<exists>rule. submitted (Run env args) = [rule]
           \<and> RoleBindType rule =
               (if ''role-bind-type'' \<in> fst ` set args
                then last_value args ''role-bind-type'' ''service'' else RoleBindType current)
           \<and> Selector rule =
               (if ''selector'' \<in> fst ` set args
                then last_value args ''selector'' '''' else Selector current)"
  using Run_merge[OF assms] Parse_init(3,4,6)[OF assms(1)] by simp

theorem merge_presence_fields_witness:
  "Parse (HTTPFlags web_env) init [(''id'', ''43cb''), (''role-bind-type'', '''')]
     = Inr \<lparr>flags = [''role-bind-type'', ''id''], ruleID = ''43cb'', description = '''',
            selector = '''', roleBindType = '''', roleName = '''', noMerge = False,
            showMeta = False\<rparr>
   \<and> GetBindingRuleIDFromPartial web_env ''43cb'' = Inr ''43cb72df-aaa''
   \<and> BindingRuleRead web_env ''43cb72df-aaa'' = Inr (Some web_rule)
   \<and> RoleBindType web_rule = ''existing'' \<and> Selector web_rule = ''x==1''
   \<and> (\<exists>rule. submitted (Run web_env [(''id'', ''43cb''), (''role-bind-type'', '''')]) = [rule]
          \<and> RoleBindType rule = '''' \<and> Selector rule = ''x==1'')"
  using merge_presence_fields[of web_env "[(''id'', ''43cb''), (''role-bind-type'', '''')]"
      "\<lparr>flags = [''role-bind-type'', ''id''], ruleID = ''43cb'', description = '''',
            selector = '''', roleBindType = '''', roleName = '''', noMerge = False,
            showMeta = False\<rparr>"
      "''43cb72df-aaa''" web_rule]
  by (simp add: fake_env_def web_env_def web_rule_def resolve_def init_def set_flag_def ParseBool_def
      BindingRuleRoleBindTypeService_def last_value_def)

subsection \<open>C3: description and roleName in merge mode\<close>

text \<open>
  C3: in merge mode the planned record takes description and roleName from the command
  line exactly when the value supplied is not empty, and keeps the value of the current
  record when it is empty. In particular (scenario C), with a current record of
  description "old" and selector "x==1", an empty description and an empty selector that
  was passed explicitly, the planned record has description "old" and selector "".
\<close>

theorem merge_nonempty_fields:
  assumes "Parse (HTTPFlags env) init args = Inr c"
    and "ruleID c \<noteq> ''''"
    and "APIClient env = None"
    and "GetBindingRuleIDFromPartial env (ruleID c) = Inr rid"
    and "BindingRuleRead env rid = Inr (Some current)"
    and "\<not> noMerge c"
  shows "\<exists>rule. submitted (Run env args) = [rule]
           \<and> Description rule =
               (if last_value args ''description'' '''' \<noteq> ''''
                then last_value args ''description'' '''' else Description current)
           \<and> RoleName rule =
               (if last_value args ''role-name'' '''' \<noteq> ''''
                then last_value args ''role-name'' '''' else RoleName current)
           \<and> (Description current = ''old'' \<and> Selector current = ''x==1''
                \<and> last_value args ''description'' '''' = ''''
                \<and> ''selector'' \<in> fst ` set args \<and> last_value args ''selector'' '''' = ''''
                \<longrightarrow> Description rule = ''old'' \<and> Selector rule = '''')"
  using Run_merge[OF assms] Parse_init(2,3,5,6)[OF assms(1)] by simp

theorem merge_nonempty_fields_witness:
  "Parse (HTTPFlags web_env) init [(''id'', ''43cb''), (''selector'', '''')]
     = Inr \<lparr>flags = [''selector'', ''id''], ruleID = ''43cb'', description = '''',
            selector = '''', roleBindType = ''service'', roleName = '''', noMerge = False,
            showMeta = False\<rparr>
   \<and> GetBindingRuleIDFromPartial web_env ''43cb'' = Inr ''43cb72df-aaa''
   \<and> BindingRuleRead web_env ''43cb72df-aaa'' = Inr (Some web_rule)
   \<and> Description web_rule = ''old'' \<and> Selector web_rule = ''x==1''
   \<and> (\<exists>rule. submitted (Run web_env [(''id'', ''43cb''), (''selector'', '''')]) = [rule]
          \<and> Description rule = ''old'' \<and> RoleName rule = ''web'' \<and> Selector rule = '''')"
  using merge_nonempty_fields[of web_env
      "[(''id'', ''43cb''), (''selector'', '''')]"
      "\<lparr>flags = [''selector'', ''id''], ruleID = ''43cb'', description = '''',
            selector = '''', roleBindType = ''service'', roleName = '''', noMerge = False,
            showMeta = False\<rparr>"
      "''43cb72df-aaa''" web_rule]
  by (auto simp: fake_env_def web_env_def web_rule_def resolve_def init_def set_flag_def ParseBool_def
      BindingRuleRoleBindTypeService_def last_value_def)

subsection \<open>C4: id and providerRef of the planned record\<close>



subsection \<open>C5: the identifier resolver\<close>

text \<open>
  C5: over a set of candidate identifiers (a list without repetitions), the resolver
  returns a candidate exactly when it is the only one that has the partial identifier as
  a prefix, fails with \<^verbatim>\<open>NotFound\<close> exactly when no candidate has it as a prefix, and
  fails with \<^verbatim>\<open>AmbiguousPrefix\<close>, naming the colliding candidates, exactly when two or
  more have. The prefix test compares characters, so it distinguishes upper and lower
  case. The statement holds for every partial identifier, the non-empty ones among them.
\<close>

theorem resolve_correct:
  assumes "distinct candidates"
  shows "(resolve partial candidates = Inr full
            \<longleftrightarrow> {c \<in> set candidates. prefix partial c} = {full})
       \<and> (resolve partial candidates = Inl NotFound
            \<longleftrightarrow> {c \<in> set candidates. prefix partial c} = {})
       \<and> ((\<exists>matches. resolve partial candidates = Inl (AmbiguousPrefix matches)
                      \<and> set matches = {c \<in> set candidates. prefix partial c})
            \<longleftrightarrow> 2 \<le> card {c \<in> set candidates. prefix partial c})"
proof -
  let ?ms = "filter (prefix partial) candidates"
  have s: "{c \<in> set candidates. prefix partial c} = set ?ms" by auto
  have d: "distinct ?ms" using assms by simp
  show ?thesis
  proof (cases ?ms)
    case Nil
    then show ?thesis unfolding s by (simp add: resolve_def)
  next
    case (Cons x xs)
    note outer = Cons
    show ?thesis
    proof (cases xs)
      case Nil
      with outer show ?thesis unfolding s by (auto simp: resolve_def)
    next
      case (Cons y ys)
      with outer have ms: "?ms = x # y # ys" by simp
      from d ms have xy: "x \<noteq> y" by auto
      have c: "card (set ?ms) = length ?ms" using d by (rule distinct_card)
      have ne: "set ?ms \<noteq> {full}"
      proof
        assume "set ?ms = {full}"
        with ms have "x = full" "y = full" by auto
        with xy show False by simp
      qed
      from ms c ne show ?thesis unfolding s by (simp add: resolve_def)
    qed
  qed
qed

theorem resolve_correct_witness:
  "distinct [''43cb72df-aaa'', ''43cb72df-bbb'', ''9f1e0c55-ccc'']
   \<and> resolve ''9f1e'' [''43cb72df-aaa'', ''43cb72df-bbb'', ''9f1e0c55-ccc''] = Inr ''9f1e0c55-ccc''
   \<and> {c \<in> set [''43cb72df-aaa'', ''43cb72df-bbb'', ''9f1e0c55-ccc'']. prefix ''9f1e'' c}
       = {''9f1e0c55-ccc''}"
  using resolve_correct[of "[''43cb72df-aaa'', ''43cb72df-bbb'', ''9f1e0c55-ccc'']" "''9f1e''"
      "''9f1e0c55-ccc''"]
  by (simp add: resolve_def)

text \<open>Scenarios A and B of the spec, and a partial identifier in the wrong case.\<close>

lemma resolve_scenarios:
  "resolve ''43cb72df'' [''43cb72df-aaa'', ''43cb72df-bbb'']
     = Inl (AmbiguousPrefix [''43cb72df-aaa'', ''43cb72df-bbb''])"
  "resolve ''43cb72df'' [''43cb72df-aaa''] = Inr ''43cb72df-aaa''"
  "resolve ''43CB72DF'' [''43cb72df-aaa''] = Inl NotFound"
  by (simp_all add: resolve_def)

subsection \<open>C6: overwrite mode without a role name\<close>

text \<open>
  C6: in overwrite mode with an empty role name the command exits with a non-zero status
  and submits no update to the store; and once planning is reached (the identifier was
  resolved and the current record fetched) it fails with the error that the required
  \<^verbatim>\<open>-role-name\<close> flag is missing, followed by the help text, and returns 1.
\<close>

theorem overwrite_missing_roleName:
  assumes "Parse (HTTPFlags env) init args = Inr c"
    and "noMerge c"
    and "roleName c = ''''"
  shows "exit_code (Run env args) \<noteq> 0
       \<and> submitted (Run env args) = []
       \<and> (ruleID c \<noteq> '''' \<and> APIClient env = None
            \<and> GetBindingRuleIDFromPartial env (ruleID c) = Inr rid
            \<and> BindingRuleRead env rid = Inr (Some current)
          \<longrightarrow> Run env args =
                \<lparr>exit_code = 1,
                 ui = [UI_Error (Sprintf ''Missing required '-role-name' flag'' []),
                       UI_Error Help],
                 submitted = []\<rparr>)"
proof (cases rule: Run_stages[where c = c and env = env])
  case missing_id
  from Run_missing_id[OF assms(1) this] missing_id show ?thesis by simp
next
  case (client_error err)
  from Run_client_error[OF assms(1) this] client_error show ?thesis by simp
next
  case (resolve_error err)
  from Run_resolve_error[OF assms(1) this] resolve_error show ?thesis by simp
next
  case (read_error rid' err)
  from Run_read_error[OF assms(1) this] read_error show ?thesis by auto
next
  case (not_found rid')
  from Run_not_found[OF assms(1) this] not_found show ?thesis by auto
next
  case (planning rid' current')
  from Run_missing_roleName[OF assms(1) this assms(2,3)] show ?thesis by simp
qed

theorem overwrite_missing_roleName_witness:
  "Parse (HTTPFlags web_env) init [(''id'', ''43cb''), (''no-merge'', ''true'')]
     = Inr \<lparr>flags = [''no-merge'', ''id''], ruleID = ''43cb'', description = '''', selector = '''',
            roleBindType = ''service'', roleName = '''', noMerge = True, showMeta = False\<rparr>
   \<and> GetBindingRuleIDFromPartial web_env ''43cb'' = Inr ''43cb72df-aaa''
   \<and> BindingRuleRead web_env ''43cb72df-aaa'' = Inr (Some web_rule)
   \<and> Run web_env [(''id'', ''43cb''), (''no-merge'', ''true'')] =
        \<lparr>exit_code = 1,
         ui = [UI_Error (Sprintf ''Missing required '-role-name' flag'' []), UI_Error Help],
         submitted = []\<rparr>"
  using overwrite_missing_roleName[of web_env "[(''id'', ''43cb''), (''no-merge'', ''true'')]"
      "\<lparr>flags = [''no-merge'', ''id''], ruleID = ''43cb'', description = '''', selector = '''',
            roleBindType = ''service'', roleName = '''', noMerge = True, showMeta = False\<rparr>"
      "''43cb72df-aaa''" web_rule]
  by (simp add: fake_env_def web_env_def resolve_def init_def set_flag_def ParseBool_def
      BindingRuleRoleBindTypeService_def)

subsection \<open>C7: the exit status\<close>

text \<open>
  C7: the command returns 0 or 1, and it returns 0 exactly when the whole pipeline
  succeeds: the command line parses, the \<^verbatim>\<open>-id\<close> flag is not empty, the client is
  created, the identifier resolves, the current record is fetched and exists, the role
  name is not empty under overwrite, and the store accepts the planned record. So every
  failure (a missing \<^verbatim>\<open>-id\<close>, a failed resolution, a failed fetch or a record that is
  not found, a missing role name under overwrite, a failed submission) returns 1.

  The success of the pipeline is stated on the collaborators alone. The record the store
  has to accept is written out: under \<^verbatim>\<open>-no-merge\<close> the fresh record of the flag values,
  otherwise the current record with the fields the command line replaces.
\<close>

theorem exit_status:
  "(exit_code (Run env args) = 0 \<or> exit_code (Run env args) = 1)
   \<and> (exit_code (Run env args) = 0 \<longleftrightarrow>
        (\<exists>c rid current rule'.
            Parse (HTTPFlags env) init args = Inr c
          \<and> ruleID c \<noteq> ''''
          \<and> APIClient env = None
          \<and> GetBindingRuleIDFromPartial env (ruleID c) = Inr rid
          \<and> BindingRuleRead env rid = Inr (Some current)
          \<and> (noMerge c \<longrightarrow> roleName c \<noteq> '''')
          \<and> BindingRuleUpdate env
               (if noMerge c then
                  \<lparr>ID = rid, IDPName = IDPName current, Description = description c,
                   RoleBindType = roleBindType c, RoleName = roleName c, Selector = selector c\<rparr>
                else
                  current
                    \<lparr>Description := if description c \<noteq> '''' then description c else Description current,
                     RoleName := if roleName c \<noteq> '''' then roleName c else RoleName current,
                     RoleBindType := if isFlagSet c ''role-bind-type''
                                     then roleBindType c else RoleBindType current,
                     Selector := if isFlagSet c ''selector'' then selector c else Selector current\<rparr>)
             = Inr rule'))"
proof (cases "Parse (HTTPFlags env) init args")
  case (Inl err)
  from Run_parse_error[OF Inl] Inl show ?thesis by simp
next
  case P: (Inr c)
  show ?thesis
  proof (cases rule: Run_stages[where c = c and env = env])
    case missing_id
    from Run_missing_id[OF P this] P missing_id show ?thesis by simp
  next
    case (client_error err)
    from Run_client_error[OF P this] P client_error show ?thesis by simp
  next
    case (resolve_error err)
    from Run_resolve_error[OF P this] P resolve_error show ?thesis by simp
  next
    case (read_error rid err)
    from Run_read_error[OF P this] P read_error show ?thesis by simp
  next
    case (not_found rid)
    from Run_not_found[OF P this] P not_found show ?thesis by simp
  next
    case (planning rid current)
    show ?thesis
    proof (cases "noMerge c \<and> roleName c = ''''")
      case True
      then have "noMerge c" and "roleName c = ''''" by simp_all
      from Run_missing_roleName[OF P planning this] P planning True show ?thesis by simp
    next
      case False
      then have ok: "noMerge c \<longrightarrow> roleName c \<noteq> ''''" by simp
      let ?planned =
        "if noMerge c then
           \<lparr>ID = rid, IDPName = IDPName current, Description = description c,
            RoleBindType = roleBindType c, RoleName = roleName c, Selector = selector c\<rparr>
         else
           current
             \<lparr>Description := if description c \<noteq> '''' then description c else Description current,
              RoleName := if roleName c \<noteq> '''' then roleName c else RoleName current,
              RoleBindType := if isFlagSet c ''role-bind-type''
                              then roleBindType c else RoleBindType current,
              Selector := if isFlagSet c ''selector'' then selector c else Selector current\<rparr>"
      have planned: "submitted (Run env args) = [?planned]"
      proof (cases "noMerge c")
        case True
        with ok have "roleName c \<noteq> ''''" by simp
        from Run_overwrite[OF P planning True this] True show ?thesis by simp
      next
        case False
        from Run_merge[OF P planning False] False show ?thesis by simp
      qed
      from Run_submit[OF P planning ok] obtain rule
        where sub: "submitted (Run env args) = [rule]"
          and run: "Run env args =
             (case BindingRuleUpdate env rule of
                Inl err \<Rightarrow>
                  \<lparr>exit_code = 1,
                   ui = [UI_Error (Sprintf ''Error updating binding rule %q: %v'' [rid, err])],
                   submitted = [rule]\<rparr>
              | Inr rule' \<Rightarrow>
                  \<lparr>exit_code = 0,
                   ui = [UI_Info (Sprintf ''Binding rule updated successfully'' []),
                         PrintBindingRule rule' (showMeta c)],
                   submitted = [rule]\<rparr>)"
        by blast
      from sub planned have rule: "rule = ?planned" by simp
      show ?thesis
      proof (cases "BindingRuleUpdate env ?planned")
        case (Inl err)
        with run rule have e: "exit_code (Run env args) = 1" by simp
        from P planning ok Inl e show ?thesis by auto
      next
        case (Inr rule')
        with run rule have e: "exit_code (Run env args) = 0" by simp
        from P planning ok Inr e show ?thesis by auto
      qed
    qed
  qed
qed

text \<open>
  Six runs: a merge and an overwrite that succeed, and a run without \<^verbatim>\<open>-id\<close>, one
  whose identifier matches no rule, an overwrite without a role name, and one whose
  update the store refuses.
\<close>

theorem exit_status_witness:
  "exit_code (Run web_env [(''id'', ''43cb''), (''description'', ''new'')]) = 0
   \<and> exit_code (Run web_env [(''id'', ''43cb''), (''no-merge'', ''true''), (''role-name'', ''db'')]) = 0
   \<and> exit_code (Run web_env [(''description'', ''new'')]) = 1
   \<and> exit_code (Run web_env [(''id'', ''ffff'')]) = 1
   \<and> exit_code (Run web_env [(''id'', ''43cb''), (''no-merge'', ''true'')]) = 1
   \<and> exit_code (Run (web_env\<lparr>BindingRuleUpdate := \<lambda>rule. Inl ''Permission denied''\<rparr>)
        [(''id'', ''43cb'')]) = 1"
proof -
  note defs = fake_env_def web_env_def web_rule_def resolve_def init_def set_flag_def
    ParseBool_def BindingRuleRoleBindTypeService_def isFlagSet_def
  have merge: "exit_code (Run web_env [(''id'', ''43cb''), (''description'', ''new'')]) = 0"
    unfolding conjunct2[OF exit_status] by (simp add: defs)
  have overwrite:
    "exit_code (Run web_env [(''id'', ''43cb''), (''no-merge'', ''true''), (''role-name'', ''db'')]) = 0"
    unfolding conjunct2[OF exit_status] by (simp add: defs)
  have no_id: "exit_code (Run web_env [(''description'', ''new'')]) \<noteq> 0"
    unfolding conjunct2[OF exit_status] by (simp add: defs)
  have no_match: "exit_code (Run web_env [(''id'', ''ffff'')]) \<noteq> 0"
    unfolding conjunct2[OF exit_status] by (simp add: defs)
  have no_role: "exit_code (Run web_env [(''id'', ''43cb''), (''no-merge'', ''true'')]) \<noteq> 0"
    unfolding conjunct2[OF exit_status] by (simp add: defs)
  have refused:
    "exit_code (Run (web_env\<lparr>BindingRuleUpdate := \<lambda>rule. Inl ''Permission denied''\<rparr>)
       [(''id'', ''43cb'')]) \<noteq> 0"
    unfolding conjunct2[OF exit_status] by (simp add: defs)
  from merge overwrite
    no_id conjunct1[OF exit_status, of web_env "[(''description'', ''new'')]"]
    no_match conjunct1[OF exit_status, of web_env "[(''id'', ''ffff'')]"]
    no_role conjunct1[OF exit_status, of web_env "[(''id'', ''43cb''), (''no-merge'', ''true'')]"]
    refused conjunct1[OF exit_status,
      of "web_env\<lparr>BindingRuleUpdate := \<lambda>rule. Inl ''Permission denied''\<rparr>" "[(''id'', ''43cb'')]"]
  show ?thesis by blast
qed

subsection \<open>C8: merge planning is deterministic\<close>

text \<open>
  C8: the record planned in merge mode is determined by the current record, the input
  values and the presence of the flags. Two runs in merge mode that fetch the same
  current record, hold the same description, role name, role bind type and selector, and
  agree on whether \<^verbatim>\<open>-role-bind-type\<close> and \<^verbatim>\<open>-selector\<close> were passed plan identical
  records, whatever else differs between them. And planning once more from the planned
  record, as a second pass over the same record does, gives the same record again.
\<close>

theorem merge_deterministic:
  assumes "Parse (HTTPFlags env1) init args1 = Inr c1"
    and "ruleID c1 \<noteq> ''''"
    and "APIClient env1 = None"
    and "GetBindingRuleIDFromPartial env1 (ruleID c1) = Inr rid1"
    and "BindingRuleRead env1 rid1 = Inr (Some current)"
    and "\<not> noMerge c1"
    and "Parse (HTTPFlags env2) init args2 = Inr c2"
    and "ruleID c2 \<noteq> ''''"
    and "APIClient env2 = None"
    and "GetBindingRuleIDFromPartial env2 (ruleID c2) = Inr rid2"
    and "BindingRuleRead env2 rid2 = Inr (Some current)"
    and "\<not> noMerge c2"
    and "description c1 = description c2"
    and "roleName c1 = roleName c2"
    and "roleBindType c1 = roleBindType c2"
    and "selector c1 = selector c2"
    and "isFlagSet c1 ''role-bind-type'' = isFlagSet c2 ''role-bind-type''"
    and "isFlagSet c1 ''selector'' = isFlagSet c2 ''selector''"
  shows "submitted (Run env1 args1) = submitted (Run env2 args2)
       \<and> (\<exists>rule. submitted (Run env1 args1) = [rule]
             \<and> submitted (Run (env1\<lparr>BindingRuleRead := \<lambda>ruleID. Inr (Some rule)\<rparr>) args1) = [rule])"
proof -
  let ?rule = "current\<lparr>Description := if description c1 \<noteq> '''' then description c1 else Description current,
                RoleName := if roleName c1 \<noteq> '''' then roleName c1 else RoleName current,
                RoleBindType := if isFlagSet c1 ''role-bind-type''
                                then roleBindType c1 else RoleBindType current,
                Selector := if isFlagSet c1 ''selector'' then selector c1 else Selector current\<rparr>"
  let ?env = "env1\<lparr>BindingRuleRead := \<lambda>ruleID. Inr (Some ?rule)\<rparr>"
  have one: "submitted (Run env1 args1) = [?rule]"
    by (rule Run_merge[OF assms(1-6)])
  have two: "submitted (Run env2 args2) = [?rule]"
    using Run_merge[OF assms(7-12)] assms(13-18) by simp
  have "Parse (HTTPFlags ?env) init args1 = Inr c1" using assms(1) by simp
  moreover have "APIClient ?env = None" using assms(3) by simp
  moreover have "GetBindingRuleIDFromPartial ?env (ruleID c1) = Inr rid1" using assms(4) by simp
  moreover have "BindingRuleRead ?env rid1 = Inr (Some ?rule)" by simp
  ultimately have again: "submitted (Run ?env args1) = [?rule]"
    using Run_merge[of ?env args1 c1 rid1 ?rule] assms(2,6) by simp
  from one two again show ?thesis by simp
qed

theorem merge_deterministic_witness:
  "Parse (HTTPFlags web_env) init [(''id'', ''43cb''), (''description'', ''new''), (''selector'', '''')]
     = Inr \<lparr>flags = [''selector'', ''description'', ''id''], ruleID = ''43cb'',
            description = ''new'', selector = '''', roleBindType = ''service'', roleName = '''',
            noMerge = False, showMeta = False\<rparr>
   \<and> Parse (HTTPFlags web_env) init
        [(''selector'', ''''), (''token'', ''s3cr3t''), (''meta'', ''true''), (''id'', ''43cb72df-a''),
         (''description'', ''new'')]
     = Inr \<lparr>flags = [''description'', ''id'', ''meta'', ''token'', ''selector''],
            ruleID = ''43cb72df-a'', description = ''new'', selector = '''',
            roleBindType = ''service'', roleName = '''', noMerge = False, showMeta = True\<rparr>
   \<and> GetBindingRuleIDFromPartial web_env ''43cb'' = Inr ''43cb72df-aaa''
   \<and> GetBindingRuleIDFromPartial web_env ''43cb72df-a'' = Inr ''43cb72df-aaa''
   \<and> BindingRuleRead web_env ''43cb72df-aaa'' = Inr (Some web_rule)
   \<and> submitted (Run web_env [(''id'', ''43cb''), (''description'', ''new''), (''selector'', '''')])
     = submitted (Run web_env
         [(''selector'', ''''), (''token'', ''s3cr3t''), (''meta'', ''true''), (''id'', ''43cb72df-a''),
          (''description'', ''new'')])"
  using merge_deterministic[of web_env
      "[(''id'', ''43cb''), (''description'', ''new''), (''selector'', '''')]"
      "\<lparr>flags = [''selector'', ''description'', ''id''], ruleID = ''43cb'',
            description = ''new'', selector = '''', roleBindType = ''service'', roleName = '''',
            noMerge = False, showMeta = False\<rparr>"
      "''43cb72df-aaa''" web_rule web_env
      "[(''selector'', ''''), (''token'', ''s3cr3t''), (''meta'', ''true''), (''id'', ''43cb72df-a''),
        (''description'', ''new'')]"
      "\<lparr>flags = [''description'', ''id'', ''meta'', ''token'', ''selector''],
            ruleID = ''43cb72df-a'', description = ''new'', selector = '''',
            roleBindType = ''service'', roleName = '''', noMerge = False, showMeta = True\<rparr>"
      "''43cb72df-aaa''"]
  by (simp add: fake_env_def web_env_def resolve_def init_def set_flag_def ParseBool_def
      BindingRuleRoleBindTypeService_def isFlagSet_def)

subsection \<open>C9: merge mode with nothing supplied\<close>

text \<open>
  C9: in merge mode, when the description and the role name are empty and neither
  \<^verbatim>\<open>-role-bind-type\<close> nor \<^verbatim>\<open>-selector\<close> was passed, the planned record is the fetched
  current record, equal in every field.
\<close>

theorem merge_nothing_supplied:
  assumes "Parse (HTTPFlags env) init args = Inr c"
    and "ruleID c \<noteq> ''''"
    and "APIClient env = None"
    and "GetBindingRuleIDFromPartial env (ruleID c) = Inr rid"
    and "BindingRuleRead env rid = Inr (Some current)"
    and "\<not> noMerge c"
    and "description c = ''''" and "roleName c = ''''"
    and "''role-bind-type'' \<notin> fst ` set args" and "''selector'' \<notin> fst ` set args"
  shows "submitted (Run env args) = [current]"
  using Run_merge[OF assms(1-6)] assms(7-10) Parse_init(6)[OF assms(1)] by simp

theorem merge_nothing_supplied_witness:
  "Parse (HTTPFlags web_env) init [(''id'', ''43cb''), (''token'', ''s3cr3t'')]
     = Inr \<lparr>flags = [''token'', ''id''], ruleID = ''43cb'', description = '''', selector = '''',
            roleBindType = ''service'', roleName = '''', noMerge = False, showMeta = False\<rparr>
   \<and> GetBindingRuleIDFromPartial web_env ''43cb'' = Inr ''43cb72df-aaa''
   \<and> BindingRuleRead web_env ''43cb72df-aaa'' = Inr (Some web_rule)
   \<and> ''role-bind-type'' \<notin> fst ` set [(''id'', ''43cb''), (''token'', ''s3cr3t'')]
   \<and> ''selector'' \<notin> fst ` set [(''id'', ''43cb''), (''token'', ''s3cr3t'')]
   \<and> submitted (Run web_env [(''id'', ''43cb''), (''token'', ''s3cr3t'')]) = [web_rule]"
  using merge_nothing_supplied[of web_env "[(''id'', ''43cb''), (''token'', ''s3cr3t'')]"
      "\<lparr>flags = [''token'', ''id''], ruleID = ''43cb'', description = '''', selector = '''',
            roleBindType = ''service'', roleName = '''', noMerge = False, showMeta = False\<rparr>"
      "''43cb72df-aaa''" web_rule]
  by (simp add: fake_env_def web_env_def resolve_def init_def set_flag_def
      BindingRuleRoleBindTypeService_def)

subsection \<open>C10: the missing role name is reported last\<close>

text \<open>
  C10: in overwrite mode with an empty role name, the error about the missing
  \<^verbatim>\<open>-role-name\<close> flag is reported exactly when the earlier stages succeed, the
  resolution of the identifier and the fetch of the current record among them. When the
  resolution fails, or the fetch fails or finds no record, the only error reported is the
  one of that stage.
\<close>

theorem missing_roleName_order:
  assumes "Parse (HTTPFlags env) init args = Inr c"
    and "noMerge c"
    and "roleName c = ''''"
  shows "(UI_Error (Sprintf ''Missing required '-role-name' flag'' []) \<in> set (ui (Run env args))
           \<longleftrightarrow> ruleID c \<noteq> '''' \<and> APIClient env = None
                \<and> (\<exists>rid current. GetBindingRuleIDFromPartial env (ruleID c) = Inr rid
                      \<and> BindingRuleRead env rid = Inr (Some current)))
       \<and> (ruleID c \<noteq> '''' \<and> APIClient env = None \<longrightarrow>
            (\<forall>err. GetBindingRuleIDFromPartial env (ruleID c) = Inl err \<longrightarrow>
               ui (Run env args) =
                 [UI_Error (Sprintf ''Error determining binding rule ID: %v'' [err])])
          \<and> (\<forall>rid err. GetBindingRuleIDFromPartial env (ruleID c) = Inr rid
                 \<and> BindingRuleRead env rid = Inl err \<longrightarrow>
               ui (Run env args) =
                 [UI_Error (Sprintf ''Error when retrieving current binding rule: %v'' [err])])
          \<and> (\<forall>rid. GetBindingRuleIDFromPartial env (ruleID c) = Inr rid
                 \<and> BindingRuleRead env rid = Inr None \<longrightarrow>
               ui (Run env args) =
                 [UI_Error (Sprintf ''Binding rule not found with ID %q'' [rid])]))"
proof (cases rule: Run_stages[where c = c and env = env])
  case missing_id
  from Run_missing_id[OF assms(1) this] missing_id show ?thesis by simp
next
  case (client_error err)
  from Run_client_error[OF assms(1) this] client_error show ?thesis by simp
next
  case (resolve_error err)
  from Run_resolve_error[OF assms(1) this] resolve_error show ?thesis by simp
next
  case (read_error rid err)
  from Run_read_error[OF assms(1) this] read_error show ?thesis by simp
next
  case (not_found rid)
  from Run_not_found[OF assms(1) this] not_found show ?thesis by simp
next
  case (planning rid current)
  from Run_missing_roleName[OF assms(1) this assms(2,3)] planning show ?thesis by simp
qed

theorem missing_roleName_order_witness:
  "Parse (HTTPFlags web_env) init [(''id'', ''ffff''), (''no-merge'', ''true'')]
     = Inr \<lparr>flags = [''no-merge'', ''id''], ruleID = ''ffff'', description = '''', selector = '''',
            roleBindType = ''service'', roleName = '''', noMerge = True, showMeta = False\<rparr>
   \<and> GetBindingRuleIDFromPartial web_env ''ffff'' = Inl ''no such rule ID''
   \<and> UI_Error (Sprintf ''Missing required '-role-name' flag'' [])
        \<notin> set (ui (Run web_env [(''id'', ''ffff''), (''no-merge'', ''true'')]))
   \<and> ui (Run web_env [(''id'', ''ffff''), (''no-merge'', ''true'')]) =
        [UI_Error (Sprintf ''Error determining binding rule ID: %v'' [''no such rule ID''])]"
  using missing_roleName_order[of web_env "[(''id'', ''ffff''), (''no-merge'', ''true'')]"
      "\<lparr>flags = [''no-merge'', ''id''], ruleID = ''ffff'', description = '''', selector = '''',
            roleBindType = ''service'', roleName = '''', noMerge = True, showMeta = False\<rparr>"]
  by (simp add: fake_env_def web_env_def resolve_def init_def set_flag_def ParseBool_def
      BindingRuleRoleBindTypeService_def)

end
